theory Spec2Isabelle
  imports Complex_Main
begin

section \<open>Shared enumerations and errors\<close>

text \<open>
  The enumerations \<^verbatim>\<open>Operator\<close> and \<^verbatim>\<open>ResultStatus\<close> with the members that
  \<^verbatim>\<open>context.py\<close>, \<^verbatim>\<open>assertion_clause.py\<close> and \<^verbatim>\<open>base/requirement.py\<close> name
  (\<^verbatim>\<open>Operator.EqualTo\<close>, \<^verbatim>\<open>ResultStatus.Done\<close>, ...).
\<close>

datatype Operator =
  EqualTo | NotEqualTo | LessThan | LessThanOrEqualTo
  | GreaterThan | GreaterThanOrEqualTo | In | NotIn

datatype ResultStatus =
  Empty | NeedsMoreItems | PendingCurrent | PendingRegistered
  | PendingApproval | Done | Waived | FailedInvariant

text \<open>Every \<^verbatim>\<open>raise\<close> and failing \<^verbatim>\<open>assert\<close> of the code is a value of this type.\<close>

datatype error = TypeError | AssertionError | Exception

section \<open>Clauses, courses and claims (\<^verbatim>\<open>degreepath/context.py\<close>)\<close>

datatype atom = Str string | Num rat

datatype expected_value = Scalar atom | Sequence "atom list"

text \<open>
  \<^verbatim>\<open>SingleClause\<close> carries the four fields that \<^verbatim>\<open>make_claim\<close> passes to its
  constructor. The field names \<^verbatim>\<open>key\<close>, \<^verbatim>\<open>expected\<close> and \<^verbatim>\<open>operator\<close> are
  prefixed here because the assertion record below has fields of the same names.
\<close>

record SingleClause =
  clause_key :: string
  clause_expected :: expected_value
  expected_verbatim :: expected_value
  clause_operator :: Operator

datatype Clause = Single SingleClause | AndClause "Clause list" | OrClause "Clause list"

record CourseInstance =
  clbid :: string
  crsid :: string
  attributes :: "string list"
  is_in_progress :: bool
  is_in_progress_this_term :: bool
  is_in_progress_in_future :: bool
  is_incomplete :: bool

text \<open>
  The fields of a course rule are prefixed with \<open>rule_\<close>: \<^verbatim>\<open>course\<close> and
  \<^verbatim>\<open>allow_claimed\<close> are also parameter names of \<^verbatim>\<open>make_claim\<close>.
\<close>

record BaseCourseRule =
  rule_course :: string
  rule_hidden :: bool
  rule_grade :: "rat option"
  rule_allow_claimed :: bool
  rule_path :: "string list"

text \<open>\<^verbatim>\<open>Claim(crsid=..., clbid=..., claimant_path=..., value=...)\<close>.\<close>

record Claim =
  claim_crsid :: string
  claim_clbid :: string
  claimant_path :: "string list"
  claim_value :: Clause

text \<open>\<^verbatim>\<open>ClaimAttempt(claim, conflict_with=..., did_fail=...)\<close>.\<close>

record ClaimAttempt =
  claim :: Claim
  conflict_with :: "Claim set"
  did_fail :: bool

text \<open>
  The context: the transcript, the ordered multicountable policy and the claim ledger.
  The ledger is a \<^verbatim>\<open>defaultdict(set)\<close>: a dictionary from clbid to a set of claims whose
  lookup of a missing key stores and returns the empty set.
\<close>

record RequirementContext =
  transcript :: "CourseInstance list"
  multicountable :: "SingleClause list list"
  claims :: "string \<rightharpoonup> Claim set"

definition claims_getitem ::
  "(string \<rightharpoonup> Claim set) \<Rightarrow> string \<Rightarrow> Claim set \<times> (string \<rightharpoonup> Claim set)" where
  "claims_getitem m k = (case m k of None \<Rightarrow> ({}, m(k \<mapsto> {})) | Some s \<Rightarrow> (s, m))"

text \<open>\<^verbatim>\<open>self.claims[k].add(c)\<close>: look the entry up (creating it when missing), then add.\<close>

definition claims_add ::
  "(string \<rightharpoonup> Claim set) \<Rightarrow> string \<Rightarrow> Claim \<Rightarrow> (string \<rightharpoonup> Claim set)" where
  "claims_add m k c = (case claims_getitem m k of (s, m') \<Rightarrow> m'(k \<mapsto> insert c s))"

text \<open>
  The \<^verbatim>\<open>clause\<close> argument of \<^verbatim>\<open>make_claim\<close> is a clause or a course rule; \<^verbatim>\<open>None\<close>
  and a tuple are rejected with \<^verbatim>\<open>TypeError\<close>.
\<close>

datatype claim_arg = NoneArg | TupleArg | ClauseArg Clause | RuleArg BaseCourseRule

text \<open>The coercion of course rules to clauses, keeping the rule for its flag.\<close>

definition course_rule_clause :: "BaseCourseRule \<Rightarrow> Clause" where
  "course_rule_clause rule =
     Single \<lparr>clause_key = ''course'', clause_expected = Scalar (Str (rule_course rule)),
             expected_verbatim = Scalar (Str (rule_course rule)), clause_operator = EqualTo\<rparr>"

fun coerce_clause :: "claim_arg \<Rightarrow> error + (BaseCourseRule option \<times> Clause)" where
  "coerce_clause NoneArg = Inl TypeError"
| "coerce_clause TupleArg = Inl TypeError"
| "coerce_clause (RuleArg rule) = Inr (Some rule, course_rule_clause rule)"
| "coerce_clause (ClauseArg clause) = Inr (None, clause)"

text \<open>\<^verbatim>\<open>getattr(rule, 'allow_claimed', False)\<close>, where \<^verbatim>\<open>rule\<close> may be \<^verbatim>\<open>None\<close>.\<close>

fun getattr_allow_claimed :: "BaseCourseRule option \<Rightarrow> bool" where
  "getattr_allow_claimed None = False"
| "getattr_allow_claimed (Some rule) = rule_allow_claimed rule"

definition new_claim :: "CourseInstance \<Rightarrow> string list \<Rightarrow> Clause \<Rightarrow> Claim" where
  "new_claim course path clause =
     \<lparr>claim_crsid = crsid course, claim_clbid = clbid course,
      claimant_path = path, claim_value = clause\<rparr>"

text \<open>
  \<^verbatim>\<open>RequirementContext.make_claim\<close>. The method \<^verbatim>\<open>is_subset\<close> of \<^verbatim>\<open>SingleClause\<close>
  belongs to the clause module, which is not available, and is a parameter. The result
  is the claim attempt together with the context after the call. Each of the three
  rejection sites
  keeps the source's inner test \<^verbatim>\<open>if prior_claims\<close> and its recording \<^verbatim>\<open>else\<close> branch.
  The list \<^verbatim>\<open>prior_clauses\<close> is only tested with \<^verbatim>\<open>all\<close> and \<^verbatim>\<open>any\<close>, so it is a set.
  The debug-logging switch of the method is left out: it only gates log output.
\<close>

definition make_claim ::
  "(SingleClause \<Rightarrow> Clause \<Rightarrow> bool) \<Rightarrow> RequirementContext \<Rightarrow> CourseInstance \<Rightarrow>
   string list \<Rightarrow> claim_arg \<Rightarrow> bool \<Rightarrow> error + (ClaimAttempt \<times> RequirementContext)" where
  "make_claim is_subset self course path clause_arg allow_claimed =
    (case coerce_clause clause_arg of
       Inl e \<Rightarrow> Inl e
     | Inr (rule, clause) \<Rightarrow>
        (let claim = new_claim course path clause in
         if allow_claimed \<or> getattr_allow_claimed rule then
           Inr (\<lparr>claim = claim, conflict_with = {}, did_fail = False\<rparr>, self)
         else
          (case claims_getitem (claims self) (clbid course) of
             (prior_claims, looked_up) \<Rightarrow>
              (let self1 = self\<lparr>claims := looked_up\<rparr>;
                   recorded = self1\<lparr>claims := claims_add looked_up (clbid course) claim\<rparr>
               in
               if prior_claims = {} then
                 Inr (\<lparr>claim = claim, conflict_with = {}, did_fail = False\<rparr>, recorded)
               else
                (let applicable_clausesets =
                       filter (\<lambda>clauseset. list_ex (\<lambda>c. is_subset c clause) clauseset)
                         (multicountable self1)
                 in
                 if applicable_clausesets = [] then
                   (if prior_claims \<noteq> {} then
                      Inr (\<lparr>claim = claim, conflict_with = prior_claims, did_fail = True\<rparr>,
                           self1)
                    else
                      Inr (\<lparr>claim = claim, conflict_with = {}, did_fail = False\<rparr>, recorded))
                 else
                  (let prior_clauses = claim_value ` prior_claims;
                       clauses_to_cover = prior_clauses \<union> {clause}
                   in
                   case find (\<lambda>clauseset.
                                \<forall>p_clause \<in> clauses_to_cover.
                                  list_ex (\<lambda>c. is_subset c p_clause) clauseset)
                          applicable_clausesets of
                     None \<Rightarrow>
                       (if prior_claims \<noteq> {} then
                          Inr (\<lparr>claim = claim, conflict_with = prior_claims,
                                did_fail = True\<rparr>, self1)
                        else
                          Inr (\<lparr>claim = claim, conflict_with = {}, did_fail = False\<rparr>,
                               recorded))
                   | Some applicable_clauseset \<Rightarrow>
                      (let available_clauses =
                             filter (\<lambda>c. \<not> (\<exists>prior_clause \<in> prior_clauses.
                                                is_subset c prior_clause))
                               applicable_clauseset
                       in
                       if available_clauses = [] then
                         (if prior_claims \<noteq> {} then
                            Inr (\<lparr>claim = claim, conflict_with = prior_claims,
                                  did_fail = True\<rparr>, self1)
                          else
                            Inr (\<lparr>claim = claim, conflict_with = {}, did_fail = False\<rparr>,
                                 recorded))
                       else
                         Inr (\<lparr>claim = claim, conflict_with = {}, did_fail = False\<rparr>,
                              recorded))))))))"

text \<open>
  \<^verbatim>\<open>RequirementContext.completed_courses\<close>: the generator expression evaluates its
  iterable, a call of the same method on the same receiver, before anything is yielded.
  A computation that does not return has the value \<open>None\<close>.
\<close>

partial_function (option) completed_courses ::
  "RequirementContext \<Rightarrow> CourseInstance list option" where
  "completed_courses self =
     Option.bind (completed_courses self) (\<lambda>cs. Some (map (\<lambda>c. c) cs))"

section \<open>Predicate expressions (\<^verbatim>\<open>dp/conditional_expression.py\<close>)\<close>

datatype PredicateExpressionFunction =
  HasIpCourse | HasCompletedCourse | HasCourse | PassedProficiencyExam
  | HasDeclaredAreaCode | RequirementIsSatisfied

text \<open>The four expression classes; the last argument of each is its \<^verbatim>\<open>result\<close> field.\<close>

datatype SomePredicateExpression =
  PredicateExpressionCompoundAnd "SomePredicateExpression list" "bool option"
  | PredicateExpressionCompoundOr "SomePredicateExpression list" "bool option"
  | PredicateExpressionNot SomePredicateExpression "bool option"
  | PredicateExpression PredicateExpressionFunction string "bool option"

fun result :: "SomePredicateExpression \<Rightarrow> bool option" where
  "result (PredicateExpressionCompoundAnd expressions r) = r"
| "result (PredicateExpressionCompoundOr expressions r) = r"
| "result (PredicateExpressionNot expression r) = r"
| "result (PredicateExpression function argument r) = r"

section \<open>Assertions (\<^verbatim>\<open>dp/assertion_clause.py\<close>)\<close>

datatype ValueChangeMode = Add | Subtract

record ValueChange =
  mode :: ValueChangeMode
  expression :: SomePredicateExpression
  amount :: rat

datatype DataType = Course | Area | MusicPerformance | Recital

text \<open>
  \<^verbatim>\<open>Decimal\<close> values are rationals. The field \<^verbatim>\<open>where\<close> is named \<open>where_clause\<close>.
\<close>

record Assertion =
  path :: "string list"
  state :: ResultStatus
  data_type :: DataType
  where_clause :: "Clause option"
  key :: string
  operator :: Operator
  expected :: rat
  original :: "atom option"
  changes :: "ValueChange list"
  at_most :: bool
  message :: "string option"
  label :: "string option"
  treat_in_progress_as_pass :: bool
  evaluated :: bool
  overridden :: bool
  resolved :: "rat option"
  resolved_items :: "atom list option"
  resolved_clbids :: "string list option"
  inserted_clbids :: "string list option"

text \<open>
  The names of the attributes of \<^verbatim>\<open>Assertion\<close>, in declaration order: the keyword
  arguments its constructor accepts.
\<close>

definition Assertion_fields :: "string list" where
  "Assertion_fields =
     [''path'', ''state'', ''data_type'', ''where'', ''key'', ''operator'', ''expected'',
      ''original'', ''changes'', ''at_most'', ''message'', ''label'',
      ''treat_in_progress_as_pass'', ''evaluated'', ''overridden'', ''resolved'',
      ''resolved_items'', ''resolved_clbids'', ''inserted_clbids'']"

text \<open>
  \<^verbatim>\<open>attr.evolve(inst, **changes)\<close> builds a new instance by calling the class with the
  current attributes overridden by \<^verbatim>\<open>changes\<close>; a keyword that names no attribute makes
  the constructor raise \<^verbatim>\<open>TypeError\<close>. The keywords are given by name and the
  replacement of the named attributes as an update of the record.
\<close>

definition attr_evolve :: "string list \<Rightarrow> string list \<Rightarrow> ('a \<Rightarrow> 'a) \<Rightarrow> 'a \<Rightarrow> error + 'a" where
  "attr_evolve attribute_names keywords update inst =
     (if list_all (\<lambda>k. k \<in> set attribute_names) keywords then Inr (update inst)
      else Inl TypeError)"

text \<open>
  What a reducer returns: \<^verbatim>\<open>AppliedClauseResult\<close> with \<^verbatim>\<open>value\<close>, \<^verbatim>\<open>data\<close> and
  \<^verbatim>\<open>courses\<close>.
\<close>

record AppliedClauseResult =
  applied_value :: rat
  applied_data :: "atom list"
  applied_courses :: "CourseInstance list"

text \<open>
  The functions that \<^verbatim>\<open>assertion_clause.py\<close> imports from modules that are not
  available are parameters: the three reducers of \<^verbatim>\<open>apply_clause\<close>, \<^verbatim>\<open>apply_operator\<close>
  (arguments in the order \<^verbatim>\<open>lhs\<close>, \<^verbatim>\<open>op\<close>, \<^verbatim>\<open>rhs\<close>) and the \<^verbatim>\<open>apply\<close> method of
  the \<^verbatim>\<open>where\<close> predicate.
\<close>

record Helpers =
  apply_clause_to_assertion_with_courses :: "Assertion \<Rightarrow> CourseInstance list \<Rightarrow> AppliedClauseResult"
  apply_clause_to_assertion_with_areas :: "Assertion \<Rightarrow> CourseInstance list \<Rightarrow> AppliedClauseResult"
  apply_clause_to_assertion_with_data :: "Assertion \<Rightarrow> CourseInstance list \<Rightarrow> AppliedClauseResult"
  apply_operator :: "rat \<Rightarrow> Operator \<Rightarrow> rat \<Rightarrow> bool"
  where_apply :: "Clause \<Rightarrow> CourseInstance \<Rightarrow> bool"

text \<open>
  The two methods of the audit context that \<^verbatim>\<open>Assertion.audit_and_resolve\<close> calls:
  the clbids of the insert exceptions at a path, and the forced lookup of a clbid,
  which raises when the transcript lacks it.
\<close>

record AuditContext =
  get_insert_exceptions :: "string list \<Rightarrow> string list"
  forced_course_by_clbid :: "string \<Rightarrow> string list \<Rightarrow> error + CourseInstance"

definition from_args ::
  "string \<Rightarrow> rat \<Rightarrow> atom option \<Rightarrow> Operator \<Rightarrow> string option \<Rightarrow> bool \<Rightarrow> bool \<Rightarrow>
   ResultStatus \<Rightarrow> Assertion" where
  "from_args k e orig op lbl am tipap st =
     \<lparr>path = [], state = st, data_type = Course, where_clause = None, key = k,
      operator = op, expected = e, original = orig, changes = [], at_most = am,
      message = None, label = lbl, treat_in_progress_as_pass = tipap,
      evaluated = False, overridden = False, resolved = None, resolved_items = None,
      resolved_clbids = None, inserted_clbids = None\<rparr>"

text \<open>
  \<^verbatim>\<open>Assertion.waive\<close> passes the keywords \<^verbatim>\<open>resolved\<close>, \<^verbatim>\<open>evaluated\<close>, \<^verbatim>\<open>status\<close>
  and \<^verbatim>\<open>overridden\<close> to \<^verbatim>\<open>attr.evolve\<close>. The class has no attribute \<^verbatim>\<open>status\<close>
  (\<^verbatim>\<open>status\<close> is a method; the attribute is \<^verbatim>\<open>state\<close>), so the update can only
  replace the three keywords that are attributes.
\<close>

definition waive :: "Assertion \<Rightarrow> error + Assertion" where
  "waive self =
     attr_evolve Assertion_fields [''resolved'', ''evaluated'', ''status'', ''overridden'']
       (\<lambda>a. a\<lparr>resolved := Some 0, evaluated := True, overridden := True\<rparr>) self"

definition Assertion_status :: "Assertion \<Rightarrow> ResultStatus" where
  "Assertion_status self = state self"

text \<open>
  \<^verbatim>\<open>Assertion.rank\<close>; the failing \<^verbatim>\<open>assert self.resolved is not None\<close> is
  \<open>AssertionError\<close>. The quotient is the exact one.
\<close>

definition Assertion_rank :: "Assertion \<Rightarrow> error + (rat \<times> rat)" where
  "Assertion_rank self =
     (if state self = Done \<or> state self = Waived then Inr (1, 1)
      else case resolved self of
        None \<Rightarrow> Inl AssertionError
      | Some r \<Rightarrow>
          if operator self = LessThan \<or> operator self = LessThanOrEqualTo then Inr (0, 1)
          else if expected self \<noteq> 0 then Inr (min 1 (r / expected self), 1)
          else Inr (0, 1))"

text \<open>
  \<^verbatim>\<open>evaluate_with_courses\<close>. The test \<^verbatim>\<open>has_ip_courses\<close> looks at the courses the
  reducer reports, the second reduction at the input without its in-progress courses.
  The failing \<^verbatim>\<open>assert\<close> is \<open>AssertionError\<close>, the final \<^verbatim>\<open>raise\<close> is \<open>Exception\<close>.
\<close>

definition evaluate_with_courses ::
  "Helpers \<Rightarrow> Assertion \<Rightarrow> CourseInstance list \<Rightarrow> error + (ResultStatus \<times> AppliedClauseResult)" where
  "evaluate_with_courses h assertion value =
    (let calculated_result = apply_clause_to_assertion_with_courses h assertion value;
         operator_result =
           apply_operator h (applied_value calculated_result) (operator assertion)
             (expected assertion)
     in
     if operator_result then
       (let has_ip_courses = list_ex is_in_progress (applied_courses calculated_result);
            operator_result_no_ip =
              (if has_ip_courses then
                 (let non_ip_courses = filter (\<lambda>c. \<not> is_in_progress c) value;
                      calculated_result_no_ip =
                        apply_clause_to_assertion_with_courses h assertion non_ip_courses
                  in apply_operator h (applied_value calculated_result_no_ip)
                       (operator assertion) (expected assertion))
               else True)
        in
        if treat_in_progress_as_pass assertion \<or> operator_result_no_ip then
          Inr (Done, calculated_result)
        else if has_ip_courses then
          (let has_enrolled_courses =
                 list_ex is_in_progress_this_term (applied_courses calculated_result);
               has_registered_courses =
                 list_ex is_in_progress_in_future (applied_courses calculated_result);
               has_incomplete_courses =
                 list_ex is_incomplete (applied_courses calculated_result)
           in
           if \<not> (has_enrolled_courses \<or> has_registered_courses \<or> has_incomplete_courses)
           then Inl AssertionError
           else if (has_enrolled_courses \<or> has_incomplete_courses)
                   \<and> \<not> has_registered_courses then
             Inr (PendingCurrent, calculated_result)
           else if has_registered_courses then Inr (PendingRegistered, calculated_result)
           else Inl Exception)
        else Inr (Done, calculated_result))
     else if operator assertion = GreaterThan \<and> 0 < applied_value calculated_result
             \<and> applied_value calculated_result \<le> expected assertion then
       Inr (NeedsMoreItems, calculated_result)
     else if operator assertion = GreaterThanOrEqualTo \<and> 0 < applied_value calculated_result
             \<and> applied_value calculated_result < expected assertion then
       Inr (NeedsMoreItems, calculated_result)
     else if operator assertion = EqualTo \<and> 0 < applied_value calculated_result
             \<and> applied_value calculated_result < expected assertion then
       Inr (NeedsMoreItems, calculated_result)
     else if operator assertion = LessThan \<or> operator assertion = LessThanOrEqualTo then
       Inr (FailedInvariant, calculated_result)
     else Inr (Empty, calculated_result))"

text \<open>\<^verbatim>\<open>evaluate_with_areas\<close> and \<^verbatim>\<open>evaluate_with_items\<close> have no in-progress analysis.\<close>

definition evaluate_with_areas ::
  "Helpers \<Rightarrow> Assertion \<Rightarrow> CourseInstance list \<Rightarrow> error + (ResultStatus \<times> AppliedClauseResult)" where
  "evaluate_with_areas h assertion value =
    (let calculated_result = apply_clause_to_assertion_with_areas h assertion value;
         computed_value = applied_value calculated_result;
         operator_result = apply_operator h computed_value (operator assertion) (expected assertion)
     in
     if operator_result then Inr (Done, calculated_result)
     else if operator assertion = GreaterThan \<and> 0 < computed_value
             \<and> computed_value \<le> expected assertion then
       Inr (NeedsMoreItems, calculated_result)
     else if operator assertion = GreaterThanOrEqualTo \<and> 0 < computed_value
             \<and> computed_value < expected assertion then
       Inr (NeedsMoreItems, calculated_result)
     else if operator assertion = EqualTo \<and> 0 < computed_value
             \<and> computed_value < expected assertion then
       Inr (NeedsMoreItems, calculated_result)
     else if operator assertion = LessThan \<or> operator assertion = LessThanOrEqualTo then
       Inr (FailedInvariant, calculated_result)
     else Inr (Empty, calculated_result))"

definition evaluate_with_items ::
  "Helpers \<Rightarrow> Assertion \<Rightarrow> CourseInstance list \<Rightarrow> error + (ResultStatus \<times> AppliedClauseResult)" where
  "evaluate_with_items h assertion value =
    (let calculated_result = apply_clause_to_assertion_with_data h assertion value;
         computed_value = applied_value calculated_result;
         operator_result = apply_operator h computed_value (operator assertion) (expected assertion)
     in
     if operator_result then Inr (Done, calculated_result)
     else if operator assertion = GreaterThan \<and> 0 < computed_value
             \<and> computed_value \<le> expected assertion then
       Inr (NeedsMoreItems, calculated_result)
     else if operator assertion = GreaterThanOrEqualTo \<and> 0 < computed_value
             \<and> computed_value < expected assertion then
       Inr (NeedsMoreItems, calculated_result)
     else if operator assertion = EqualTo \<and> 0 < computed_value
             \<and> computed_value < expected assertion then
       Inr (NeedsMoreItems, calculated_result)
     else if operator assertion = LessThan \<or> operator assertion = LessThanOrEqualTo then
       Inr (FailedInvariant, calculated_result)
     else Inr (Empty, calculated_result))"

text \<open>
  \<^verbatim>\<open>Assertion.evaluate\<close>. The four data types are the ones the code names, so the
  final \<^verbatim>\<open>raise TypeError\<close> of the dispatch has no case.
\<close>

fun Assertion_evaluate_by ::
  "DataType \<Rightarrow> Helpers \<Rightarrow> Assertion \<Rightarrow> CourseInstance list \<Rightarrow>
   error + (ResultStatus \<times> AppliedClauseResult)" where
  "Assertion_evaluate_by Course h self value = evaluate_with_courses h self value"
| "Assertion_evaluate_by Area h self value = evaluate_with_areas h self value"
| "Assertion_evaluate_by MusicPerformance h self value = evaluate_with_items h self value"
| "Assertion_evaluate_by Recital h self value = evaluate_with_items h self value"

definition Assertion_evaluate ::
  "Helpers \<Rightarrow> Assertion \<Rightarrow> CourseInstance list \<Rightarrow> error + (ResultStatus \<times> AppliedClauseResult)" where
  "Assertion_evaluate h self value = Assertion_evaluate_by (data_type self) h self value"

text \<open>The loop over the insert exceptions; a failed lookup ends the audit with its error.\<close>

fun insert_forced_courses ::
  "AuditContext \<Rightarrow> string list \<Rightarrow> string list \<Rightarrow> CourseInstance list \<Rightarrow> string list \<Rightarrow>
   error + (CourseInstance list \<times> string list)" where
  "insert_forced_courses ctx p [] filtered_output inserted = Inr (filtered_output, inserted)"
| "insert_forced_courses ctx p (insert_clbid # rest) filtered_output inserted =
     (case forced_course_by_clbid ctx insert_clbid p of
        Inl e \<Rightarrow> Inl e
      | Inr matched_course \<Rightarrow>
          insert_forced_courses ctx p rest (filtered_output @ [matched_course])
            (inserted @ [clbid matched_course]))"

definition Assertion_audit_and_resolve ::
  "Helpers \<Rightarrow> AuditContext \<Rightarrow> Assertion \<Rightarrow> CourseInstance list \<Rightarrow> error + Assertion" where
  "Assertion_audit_and_resolve h ctx self data =
    (if overridden self then Inr self
     else
      (let filtered_output =
             (case where_clause self of
                Some w \<Rightarrow> filter (where_apply h w) data
              | None \<Rightarrow> data)
       in
       case insert_forced_courses ctx (path self) (get_insert_exceptions ctx (path self))
              filtered_output [] of
         Inl e \<Rightarrow> Inl e
       | Inr (filtered_output, inserted) \<Rightarrow>
          (case Assertion_evaluate h self filtered_output of
             Inl e \<Rightarrow> Inl e
           | Inr (result_status, calculated_result) \<Rightarrow>
               attr_evolve Assertion_fields
                 [''evaluated'', ''state'', ''resolved'', ''resolved_items'',
                  ''resolved_clbids'', ''inserted_clbids'']
                 (\<lambda>a. a\<lparr>evaluated := True, state := result_status,
                        resolved := Some (applied_value calculated_result),
                        resolved_items := Some (applied_data calculated_result),
                        resolved_clbids := Some (map clbid (applied_courses calculated_result)),
                        inserted_clbids := Some inserted\<rparr>)
                 self)))"

record ConditionalAssertion =
  cond_path :: "string list"
  condition :: SomePredicateExpression
  when_true :: Assertion
  when_false :: "Assertion option"

definition ConditionalAssertion_fields :: "string list" where
  "ConditionalAssertion_fields = [''path'', ''condition'', ''when_true'', ''when_false'']"

text \<open>
  \<^verbatim>\<open>ConditionalAssertion.audit_and_resolve\<close>: the three cases of \<^verbatim>\<open>condition.result\<close>
  (\<^verbatim>\<open>True\<close>, \<^verbatim>\<open>False\<close>, \<^verbatim>\<open>None\<close>).
\<close>

definition ConditionalAssertion_audit_and_resolve ::
  "Helpers \<Rightarrow> AuditContext \<Rightarrow> ConditionalAssertion \<Rightarrow> CourseInstance list \<Rightarrow>
   error + ConditionalAssertion" where
  "ConditionalAssertion_audit_and_resolve h ctx self data =
    (case result (condition self) of
       Some True \<Rightarrow>
         (case Assertion_audit_and_resolve h ctx (when_true self) data of
            Inl e \<Rightarrow> Inl e
          | Inr audited \<Rightarrow>
              attr_evolve ConditionalAssertion_fields [''when_true'']
                (\<lambda>c. c\<lparr>when_true := audited\<rparr>) self)
     | Some False \<Rightarrow>
         (case when_false self of
            Some branch \<Rightarrow>
              (case Assertion_audit_and_resolve h ctx branch data of
                 Inl e \<Rightarrow> Inl e
               | Inr audited \<Rightarrow>
                   attr_evolve ConditionalAssertion_fields [''when_false'']
                     (\<lambda>c. c\<lparr>when_false := Some audited\<rparr>) self)
          | None \<Rightarrow> Inr self)
     | None \<Rightarrow> Inl Exception)"

definition ConditionalAssertion_status :: "ConditionalAssertion \<Rightarrow> ResultStatus" where
  "ConditionalAssertion_status self =
     (if result (condition self) = Some True then Assertion_status (when_true self)
      else if result (condition self) = Some False \<and> when_false self \<noteq> None then
        Assertion_status (the (when_false self))
      else Empty)"

definition ConditionalAssertion_rank :: "ConditionalAssertion \<Rightarrow> error + (rat \<times> rat)" where
  "ConditionalAssertion_rank self =
     (if result (condition self) = Some True then Assertion_rank (when_true self)
      else if result (condition self) = Some False \<and> when_false self \<noteq> None then
        Assertion_rank (the (when_false self))
      else Inr (0, 1))"

section \<open>Requirement rules (\<^verbatim>\<open>dp/base/requirement.py\<close>)\<close>

text \<open>
  The body of a requirement is another rule of any kind, so the record is polymorphic
  in it. The fields \<^verbatim>\<open>message\<close> and \<^verbatim>\<open>result\<close> are prefixed with \<open>req_\<close>.
\<close>

record 'b BaseRequirementRule =
  name :: string
  req_message :: "string option"
  req_result :: "'b option"
  is_audited :: bool
  is_contract :: bool
  in_gpa :: bool
  disjoint :: "bool option"

text \<open>
  \<^verbatim>\<open>BaseRequirementRule.status\<close>. The inherited method \<^verbatim>\<open>Base.status\<close>, reached through
  \<^verbatim>\<open>super().status()\<close>, and the \<^verbatim>\<open>status\<close> method of the body are parameters.
\<close>

definition BaseRequirementRule_status ::
  "('b BaseRequirementRule \<Rightarrow> ResultStatus) \<Rightarrow> ('b \<Rightarrow> ResultStatus) \<Rightarrow>
   'b BaseRequirementRule \<Rightarrow> ResultStatus" where
  "BaseRequirementRule_status Base_status result_status self =
     (case req_result self of
        None \<Rightarrow> Base_status self
      | Some body \<Rightarrow> if is_audited self then PendingApproval else result_status body)"

section \<open>Parts described by the specification only\<close>

text \<open>
  Modelled from the spec: \<^verbatim>\<open>SingleClause.is_subset\<close>, whose module is not
  available. For two single clauses with the same key, an \<^verbatim>\<open>EqualTo\<close> clause is within
  an \<^verbatim>\<open>In\<close> clause when its value is a member, an \<^verbatim>\<open>In\<close> clause is within an \<^verbatim>\<open>In\<close>
  clause when its values are among the other's, an \<^verbatim>\<open>EqualTo\<close> clause is within an
  \<^verbatim>\<open>EqualTo\<close> clause when the values are equal, and every other combination answers
  false. A clause is within a conjunction when it is within every member; for a
  disjunction the model asks for one member.
\<close>

fun scalar_in :: "expected_value \<Rightarrow> expected_value \<Rightarrow> bool" where
  "scalar_in (Scalar x) (Sequence ys) = (x \<in> set ys)"
| "scalar_in _ _ = False"

fun sequence_within :: "expected_value \<Rightarrow> expected_value \<Rightarrow> bool" where
  "sequence_within (Sequence xs) (Sequence ys) = list_all (\<lambda>x. x \<in> set ys) xs"
| "sequence_within _ _ = False"

definition single_is_subset :: "SingleClause \<Rightarrow> SingleClause \<Rightarrow> bool" where
  "single_is_subset c d =
     (if clause_key c \<noteq> clause_key d then False
      else if clause_operator c = EqualTo \<and> clause_operator d = In then
        scalar_in (clause_expected c) (clause_expected d)
      else if clause_operator c = In \<and> clause_operator d = In then
        sequence_within (clause_expected c) (clause_expected d)
      else if clause_operator c = EqualTo \<and> clause_operator d = EqualTo then
        clause_expected c = clause_expected d
      else False)"

fun is_subset :: "SingleClause \<Rightarrow> Clause \<Rightarrow> bool" where
  "is_subset c (Single d) = single_is_subset c d"
| "is_subset c (AndClause ds) = list_all (is_subset c) ds"
| "is_subset c (OrClause ds) = list_ex (is_subset c) ds"

text \<open>
  Modelled from the spec: the constant \<^verbatim>\<open>PassingStatuses\<close> of the status module, which
  is not available.
\<close>

definition PassingStatuses :: "ResultStatus set" where
  "PassingStatuses = {Done, Waived, PendingCurrent, PendingRegistered, PendingApproval}"

text \<open>
  Modelled from the spec: \<^verbatim>\<open>apply_operator\<close> of the operator module, which is not
  available, on numbers: the six numeric comparisons. \<^verbatim>\<open>In\<close> and \<^verbatim>\<open>NotIn\<close>
  need a sequence; \<^verbatim>\<open>load_single_assertion\<close> forbids them in an assertion, and the
  model answers false.
\<close>

fun numeric_apply_operator :: "rat \<Rightarrow> Operator \<Rightarrow> rat \<Rightarrow> bool" where
  "numeric_apply_operator lhs EqualTo rhs = (lhs = rhs)"
| "numeric_apply_operator lhs NotEqualTo rhs = (lhs \<noteq> rhs)"
| "numeric_apply_operator lhs LessThan rhs = (lhs < rhs)"
| "numeric_apply_operator lhs LessThanOrEqualTo rhs = (lhs \<le> rhs)"
| "numeric_apply_operator lhs GreaterThan rhs = (lhs > rhs)"
| "numeric_apply_operator lhs GreaterThanOrEqualTo rhs = (lhs \<ge> rhs)"
| "numeric_apply_operator lhs In rhs = False"
| "numeric_apply_operator lhs NotIn rhs = False"

text \<open>
  Modelled from the spec: the reducer \<^verbatim>\<open>count(courses)\<close> of the module
  \<^verbatim>\<open>apply_clause\<close>, which is not available. Its value is the number of
  courses it is given and its matched set is that input; the data tuple, which the spec
  does not describe, lists the clbids.
\<close>

definition count_courses :: "Assertion \<Rightarrow> CourseInstance list \<Rightarrow> AppliedClauseResult" where
  "count_courses assertion value =
     \<lparr>applied_value = of_nat (length value), applied_data = map (\<lambda>c. Str (clbid c)) value,
      applied_courses = value\<rparr>"

definition counting_helpers :: Helpers where
  "counting_helpers =
     \<lparr>apply_clause_to_assertion_with_courses = count_courses,
      apply_clause_to_assertion_with_areas = count_courses,
      apply_clause_to_assertion_with_data = count_courses,
      apply_operator = numeric_apply_operator,
      where_apply = (\<lambda>w c. True)\<rparr>"

text \<open>
  Modelled from the spec: an inherited \<^verbatim>\<open>Base.status\<close>, whose module is not
  available. The spec gives \<^verbatim>\<open>Empty\<close> as the status of a rule with nothing resolved
  (scenario B), and this instance answers \<^verbatim>\<open>Empty\<close> for every rule.
\<close>

definition Base_status_empty :: "'b BaseRequirementRule \<Rightarrow> ResultStatus" where
  "Base_status_empty self = Empty"

section \<open>Concrete inputs\<close>

text \<open>Scenario D of the specification: one course, two clausesets sharing a clause.\<close>

definition attributes_clause :: "string \<Rightarrow> SingleClause" where
  "attributes_clause a =
     \<lparr>clause_key = ''attributes'', clause_expected = Scalar (Str a),
      expected_verbatim = Scalar (Str a), clause_operator = EqualTo\<rparr>"

definition scenario_multicountable :: "SingleClause list list" where
  "scenario_multicountable =
     [[attributes_clause ''elective'', attributes_clause ''post1800''],
      [attributes_clause ''elective'', attributes_clause ''war'']]"

definition scenario_course :: CourseInstance where
  "scenario_course =
     \<lparr>clbid = ''c1'', crsid = ''crs1'', attributes = [''elective'', ''post1800'', ''war''],
      is_in_progress = False, is_in_progress_this_term = False,
      is_in_progress_in_future = False, is_incomplete = False\<rparr>"

definition scenario_context :: RequirementContext where
  "scenario_context =
     \<lparr>transcript = [scenario_course], multicountable = scenario_multicountable,
      claims = Map.empty\<rparr>"

definition scenario_first_claim :: Claim where
  "scenario_first_claim =
     new_claim scenario_course [''query-a''] (Single (attributes_clause ''post1800''))"

definition scenario_second_claim :: Claim where
  "scenario_second_claim =
     new_claim scenario_course [''query-b''] (Single (attributes_clause ''war''))"

definition scenario_after_first :: RequirementContext where
  "scenario_after_first =
     scenario_context\<lparr>claims := [''c1'' \<mapsto> {scenario_first_claim}]\<rparr>"

definition history_rule :: BaseCourseRule where
  "history_rule =
     \<lparr>rule_course = ''HIST 101'', rule_hidden = False, rule_grade = None,
      rule_allow_claimed = False, rule_path = [''$'', ''HIST 101'']\<rparr>"

text \<open>A course the student is enrolled in this term, and assertions that count courses.\<close>

definition enrolled_course :: CourseInstance where
  "enrolled_course =
     \<lparr>clbid = ''c2'', crsid = ''crs2'', attributes = [],
      is_in_progress = True, is_in_progress_this_term = True,
      is_in_progress_in_future = False, is_incomplete = False\<rparr>"

definition count_assertion :: "Operator \<Rightarrow> rat \<Rightarrow> Assertion" where
  "count_assertion op n = from_args ''count(courses)'' n None op None False False Empty"

definition no_exceptions :: AuditContext where
  "no_exceptions =
     \<lparr>get_insert_exceptions = (\<lambda>p. []),
      forced_course_by_clbid = (\<lambda>c p. Inl Exception)\<rparr>"

text \<open>A conditional assertion whose condition is false and that has no \<^verbatim>\<open>$else\<close>.\<close>

definition conditional_without_else :: ConditionalAssertion where
  "conditional_without_else =
     \<lparr>cond_path = [], condition = PredicateExpression HasDeclaredAreaCode ''130'' (Some False),
      when_true = count_assertion GreaterThanOrEqualTo 4, when_false = None\<rparr>"

text \<open>Audited requirements, without and with a body (the body is its own status here).\<close>

definition audited_without_result :: "ResultStatus BaseRequirementRule" where
  "audited_without_result =
     \<lparr>name = ''Capstone'', req_message = None, req_result = None, is_audited = True,
      is_contract = False, in_gpa = True, disjoint = None\<rparr>"

definition audited_with_result :: "ResultStatus BaseRequirementRule" where
  "audited_with_result =
     \<lparr>name = ''Capstone'', req_message = None, req_result = Some NeedsMoreItems,
      is_audited = True, is_contract = False, in_gpa = True, disjoint = None\<rparr>"

section \<open>Claim arbitration\<close>

lemma single_is_subset_attributes:
  "single_is_subset (attributes_clause a) (attributes_clause b) = (a = b)"
  by (simp add: single_is_subset_def attributes_clause_def)

lemma scenario_first_call:
  "make_claim is_subset scenario_context scenario_course [''query-a'']
     (ClauseArg (Single (attributes_clause ''post1800''))) False
   = Inr (\<lparr>claim = scenario_first_claim, conflict_with = {}, did_fail = False\<rparr>,
          scenario_after_first)"
  by (simp add: make_claim_def scenario_context_def scenario_course_def claims_getitem_def
      claims_add_def scenario_first_claim_def scenario_after_first_def Let_def)

lemma scenario_second_call:
  "make_claim is_subset scenario_after_first scenario_course [''query-b'']
     (ClauseArg (Single (attributes_clause ''war''))) False
   = Inr (\<lparr>claim = scenario_second_claim, conflict_with = {scenario_first_claim},
           did_fail = True\<rparr>,
          scenario_after_first)"
  by (simp add: make_claim_def scenario_context_def scenario_course_def claims_getitem_def
      claims_add_def scenario_first_claim_def scenario_second_claim_def
      scenario_after_first_def scenario_multicountable_def single_is_subset_attributes
      new_claim_def Let_def)

lemma scenario_no_covering_clauseset:
  "\<not> list_ex (\<lambda>clauseset.
        list_all (\<lambda>p_clause. list_ex (\<lambda>c. is_subset c p_clause) clauseset)
          [Single (attributes_clause ''post1800''), Single (attributes_clause ''war'')])
      scenario_multicountable"
  by (simp add: scenario_multicountable_def single_is_subset_attributes)

text \<open>
  C1: under the policy of scenario D, the first claim of the course \<open>c1\<close> with the clause
  \<open>{attributes: post1800}\<close> succeeds and is recorded; the second claim of \<open>c1\<close>, from
  another claimant with the clause \<open>{attributes: war}\<close> and \<open>allow_claimed\<close> false, is
  rejected with \<open>did_fail\<close> true and \<open>conflict_with\<close> equal to the prior claim, and no
  clauseset of the policy covers both clauses.
\<close>

theorem multicountable_second_claim_conflicts:
  "make_claim is_subset scenario_context scenario_course [''query-a'']
     (ClauseArg (Single (attributes_clause ''post1800''))) False
   = Inr (\<lparr>claim = scenario_first_claim, conflict_with = {}, did_fail = False\<rparr>,
          scenario_after_first)
   \<and> make_claim is_subset scenario_after_first scenario_course [''query-b'']
       (ClauseArg (Single (attributes_clause ''war''))) False
     = Inr (\<lparr>claim = scenario_second_claim, conflict_with = {scenario_first_claim},
             did_fail = True\<rparr>,
            scenario_after_first)
   \<and> \<not> list_ex (\<lambda>clauseset.
          list_all (\<lambda>p_clause. list_ex (\<lambda>c. is_subset c p_clause) clauseset)
            [Single (attributes_clause ''post1800''), Single (attributes_clause ''war'')])
        scenario_multicountable"
  using scenario_first_call scenario_second_call scenario_no_covering_clauseset
  by (intro conjI)

theorem multicountable_second_claim_conflicts_witness:
  "map_sum id (did_fail \<circ> fst)
     (make_claim is_subset scenario_after_first scenario_course [''query-b'']
        (ClauseArg (Single (attributes_clause ''war''))) False)
   = Inr True"
  using multicountable_second_claim_conflicts by simp

text \<open>
  C2: when \<open>make_claim\<close> is called with \<open>allow_claimed\<close> false and the ledger holds no
  claim for the clbid of the course (no entry, or an empty one), the call succeeds with
  an empty \<open>conflict_with\<close> and the ledger entry of that clbid holds the new claim. This
  holds for every clause, and for every course rule that does not itself carry
  \<open>allow_claimed\<close>.
\<close>

theorem make_claim_records_first_claim:
  assumes "claims self (clbid course) = None \<or> claims self (clbid course) = Some {}"
  shows "make_claim subset_test self course claimant (ClauseArg clause) False
         = Inr (\<lparr>claim = new_claim course claimant clause, conflict_with = {},
                 did_fail = False\<rparr>,
                self\<lparr>claims := (claims self)(clbid course \<mapsto>
                                   {new_claim course claimant clause})\<rparr>)
       \<and> (\<not> rule_allow_claimed rule \<longrightarrow>
            make_claim subset_test self course claimant (RuleArg rule) False
            = Inr (\<lparr>claim = new_claim course claimant (course_rule_clause rule),
                    conflict_with = {}, did_fail = False\<rparr>,
                   self\<lparr>claims := (claims self)(clbid course \<mapsto>
                                      {new_claim course claimant (course_rule_clause rule)})\<rparr>))"
  using assms
  by (auto simp: make_claim_def claims_getitem_def claims_add_def Let_def)

theorem make_claim_records_first_claim_witness:
  "(claims scenario_context (clbid scenario_course) = None
      \<or> claims scenario_context (clbid scenario_course) = Some {})
   \<and> make_claim is_subset scenario_context scenario_course [''query-a'']
       (ClauseArg (Single (attributes_clause ''post1800''))) False
     = Inr (\<lparr>claim = scenario_first_claim, conflict_with = {}, did_fail = False\<rparr>,
            scenario_context\<lparr>claims := [''c1'' \<mapsto> {scenario_first_claim}]\<rparr>)
   \<and> \<not> rule_allow_claimed history_rule
   \<and> make_claim is_subset scenario_context scenario_course [''$'', ''HIST 101'']
       (RuleArg history_rule) False
     = Inr (\<lparr>claim = new_claim scenario_course [''$'', ''HIST 101'']
                       (course_rule_clause history_rule),
             conflict_with = {}, did_fail = False\<rparr>,
            scenario_context\<lparr>claims := [''c1'' \<mapsto>
              {new_claim scenario_course [''$'', ''HIST 101'']
                 (course_rule_clause history_rule)}]\<rparr>)"
proof -
  have empty: "claims scenario_context (clbid scenario_course) = None
      \<or> claims scenario_context (clbid scenario_course) = Some {}"
    by (simp add: scenario_context_def)
  have flag: "\<not> rule_allow_claimed history_rule"
    by (simp add: history_rule_def)
  note first =
    make_claim_records_first_claim [OF empty, where subset_test = is_subset
      and claimant = "[''query-a'']" and clause = "Single (attributes_clause ''post1800'')"
      and rule = history_rule, THEN conjunct1]
  note second =
    make_claim_records_first_claim [OF empty, where subset_test = is_subset
      and claimant = "[''$'', ''HIST 101'']" and clause = "Single (attributes_clause ''war'')"
      and rule = history_rule, THEN conjunct2, rule_format, OF flag]
  have key: "clbid scenario_course = ''c1''"
    by (simp add: scenario_course_def)
  have ledger: "claims scenario_context = Map.empty"
    by (simp add: scenario_context_def)
  from first second empty flag show ?thesis
    by (simp add: key ledger scenario_first_claim_def)
qed

text \<open>
  C3: when \<open>make_claim\<close> is called with \<open>allow_claimed\<close> true, for a clause or for a
  course rule, the call succeeds with an empty \<open>conflict_with\<close> and the context, with its
  claim ledger, is the same after the call as before it.
\<close>

theorem make_claim_allow_claimed_unrecorded:
  "make_claim subset_test self course claimant (ClauseArg clause) True
   = Inr (\<lparr>claim = new_claim course claimant clause, conflict_with = {},
           did_fail = False\<rparr>, self)
   \<and> make_claim subset_test self course claimant (RuleArg rule) True
     = Inr (\<lparr>claim = new_claim course claimant (course_rule_clause rule),
             conflict_with = {}, did_fail = False\<rparr>, self)"
  by (simp add: make_claim_def)

theorem make_claim_allow_claimed_unrecorded_witness:
  "make_claim is_subset scenario_after_first scenario_course [''query-b'']
     (ClauseArg (Single (attributes_clause ''war''))) True
   = Inr (\<lparr>claim = scenario_second_claim, conflict_with = {}, did_fail = False\<rparr>,
          scenario_after_first)"
  using make_claim_allow_claimed_unrecorded [where subset_test = is_subset
      and self = scenario_after_first and course = scenario_course
      and claimant = "[''query-b'']" and clause = "Single (attributes_clause ''war'')"
      and rule = history_rule, THEN conjunct1]
  by (simp add: scenario_second_claim_def)

text \<open>
  C4: whenever \<open>make_claim\<close> returns an attempt with \<open>did_fail\<close> true, the context after
  the call is the context before it: every entry of the claim ledger is as it was.
\<close>

theorem make_claim_failure_leaves_ledger:
  assumes "make_claim subset_test self course claimant arg flag = Inr (attempt, self')"
    and "did_fail attempt"
  shows "self' = self"
  using assms
  by (auto simp: make_claim_def claims_getitem_def Let_def
      split: sum.splits prod.splits if_splits option.splits)

theorem make_claim_failure_leaves_ledger_witness:
  "make_claim is_subset scenario_after_first scenario_course [''query-b'']
     (ClauseArg (Single (attributes_clause ''war''))) False
   = Inr (\<lparr>claim = scenario_second_claim, conflict_with = {scenario_first_claim},
           did_fail = True\<rparr>,
          scenario_context\<lparr>claims := [''c1'' \<mapsto> {scenario_first_claim}]\<rparr>)
   \<and> did_fail \<lparr>claim = scenario_second_claim, conflict_with = {scenario_first_claim},
               did_fail = True\<rparr>
   \<and> scenario_context\<lparr>claims := [''c1'' \<mapsto> {scenario_first_claim}]\<rparr> = scenario_after_first"
proof -
  have call:
    "make_claim is_subset scenario_after_first scenario_course [''query-b'']
       (ClauseArg (Single (attributes_clause ''war''))) False
     = Inr (\<lparr>claim = scenario_second_claim, conflict_with = {scenario_first_claim},
             did_fail = True\<rparr>,
            scenario_context\<lparr>claims := [''c1'' \<mapsto> {scenario_first_claim}]\<rparr>)"
    using scenario_second_call by (simp add: scenario_after_first_def)
  have failed:
    "did_fail \<lparr>claim = scenario_second_claim, conflict_with = {scenario_first_claim},
               did_fail = True\<rparr>"
    by simp
  from make_claim_failure_leaves_ledger [OF call failed] call failed
  show ?thesis by (intro conjI)
qed

section \<open>Status of course assertions\<close>

text \<open>
  C5, as the code has it: when the comparison of a course assertion fails, the status is
  \<open>NeedsMoreItems\<close> exactly when the operator is \<open>GreaterThan\<close> and
  \<open>0 < computed \<le> expected\<close>, or the operator is \<open>GreaterThanOrEqualTo\<close> or \<open>EqualTo\<close> and
  \<open>0 < computed < expected\<close>; otherwise it is \<open>FailedInvariant\<close> for \<open>LessThan\<close> and
  \<open>LessThanOrEqualTo\<close>, and \<open>Empty\<close> in every other case.
\<close>

theorem failed_comparison_status:
  assumes "\<not> apply_operator h
               (applied_value (apply_clause_to_assertion_with_courses h assertion value))
               (operator assertion) (expected assertion)"
  shows "evaluate_with_courses h assertion value =
     Inr (if (operator assertion = GreaterThan
               \<and> 0 < applied_value (apply_clause_to_assertion_with_courses h assertion value)
               \<and> applied_value (apply_clause_to_assertion_with_courses h assertion value)
                   \<le> expected assertion)
            \<or> ((operator assertion = GreaterThanOrEqualTo \<or> operator assertion = EqualTo)
               \<and> 0 < applied_value (apply_clause_to_assertion_with_courses h assertion value)
               \<and> applied_value (apply_clause_to_assertion_with_courses h assertion value)
                   < expected assertion)
          then NeedsMoreItems
          else if operator assertion = LessThan \<or> operator assertion = LessThanOrEqualTo
          then FailedInvariant
          else Empty,
          apply_clause_to_assertion_with_courses h assertion value)"
  using assms by (auto simp: evaluate_with_courses_def Let_def)

lemma count_assertion_fields:
  "operator (count_assertion op n) = op"
  "expected (count_assertion op n) = n"
  "treat_in_progress_as_pass (count_assertion op n) = False"
  by (simp_all add: count_assertion_def from_args_def)

lemma counting_helpers_fields:
  "apply_clause_to_assertion_with_courses counting_helpers = count_courses"
  "apply_operator counting_helpers = numeric_apply_operator"
  by (simp_all add: counting_helpers_def)

lemma count_courses_fields:
  "applied_value (count_courses a cs) = of_nat (length cs)"
  "applied_courses (count_courses a cs) = cs"
  by (simp_all add: count_courses_def)

theorem failed_comparison_status_witness:
  "\<not> apply_operator counting_helpers
       (applied_value (apply_clause_to_assertion_with_courses counting_helpers
          (count_assertion GreaterThanOrEqualTo 2) [scenario_course]))
       (operator (count_assertion GreaterThanOrEqualTo 2))
       (expected (count_assertion GreaterThanOrEqualTo 2))
   \<and> evaluate_with_courses counting_helpers (count_assertion GreaterThanOrEqualTo 2)
       [scenario_course]
     = Inr (NeedsMoreItems,
            count_courses (count_assertion GreaterThanOrEqualTo 2) [scenario_course])"
proof -
  have fails:
    "\<not> apply_operator counting_helpers
         (applied_value (apply_clause_to_assertion_with_courses counting_helpers
            (count_assertion GreaterThanOrEqualTo 2) [scenario_course]))
         (operator (count_assertion GreaterThanOrEqualTo 2))
         (expected (count_assertion GreaterThanOrEqualTo 2))"
    by (simp add: count_assertion_fields counting_helpers_fields count_courses_fields)
  from failed_comparison_status [OF fails] fails show ?thesis
    by (simp add: count_assertion_fields counting_helpers_fields count_courses_fields)
qed

theorem needs_more_items_at_expected_counterexample:
  "operator (count_assertion GreaterThan 1) = GreaterThan
   \<and> applied_value (count_courses (count_assertion GreaterThan 1) [scenario_course])
     = expected (count_assertion GreaterThan 1)
   \<and> \<not> numeric_apply_operator
         (applied_value (count_courses (count_assertion GreaterThan 1) [scenario_course]))
         GreaterThan (expected (count_assertion GreaterThan 1))
   \<and> evaluate_with_courses counting_helpers (count_assertion GreaterThan 1) [scenario_course]
     = Inr (NeedsMoreItems, count_courses (count_assertion GreaterThan 1) [scenario_course])
   \<and> evaluate_with_courses counting_helpers (count_assertion GreaterThan 1) [scenario_course]
     \<noteq> Inr (Empty, count_courses (count_assertion GreaterThan 1) [scenario_course])"
  by (simp add: evaluate_with_courses_def Let_def count_assertion_fields
      counting_helpers_fields count_courses_fields)

text \<open>
  C6: for a course assertion with \<open>treat_in_progress_as_pass\<close> false whose comparison
  holds over the input and fails over the input without its in-progress courses, where
  the matched set holds an in-progress course and every in-progress matched course is
  enrolled this term, registered for a future term or incomplete, the evaluation returns
  the status \<open>PendingCurrent\<close> or \<open>PendingRegistered\<close>, and not \<open>Done\<close>.
\<close>

theorem in_progress_dependent_is_pending:
  assumes "\<not> treat_in_progress_as_pass assertion"
    and "apply_operator h
           (applied_value (apply_clause_to_assertion_with_courses h assertion value))
           (operator assertion) (expected assertion)"
    and "\<not> apply_operator h
             (applied_value (apply_clause_to_assertion_with_courses h assertion
                (filter (\<lambda>c. \<not> is_in_progress c) value)))
             (operator assertion) (expected assertion)"
    and "\<exists>c \<in> set (applied_courses (apply_clause_to_assertion_with_courses h assertion value)).
           is_in_progress c"
    and "\<forall>c \<in> set (applied_courses (apply_clause_to_assertion_with_courses h assertion value)).
           is_in_progress c \<longrightarrow>
             is_in_progress_this_term c \<or> is_in_progress_in_future c \<or> is_incomplete c"
  shows "\<exists>status. evaluate_with_courses h assertion value =
            Inr (status, apply_clause_to_assertion_with_courses h assertion value)
          \<and> (status = PendingCurrent \<or> status = PendingRegistered) \<and> status \<noteq> Done"
proof -
  let ?r = "apply_clause_to_assertion_with_courses h assertion value"
  from assms(4) have ip: "list_ex is_in_progress (applied_courses ?r)"
    by (simp add: list_ex_iff)
  from assms(4,5) have flags:
    "list_ex is_in_progress_this_term (applied_courses ?r)
     \<or> list_ex is_in_progress_in_future (applied_courses ?r)
     \<or> list_ex is_incomplete (applied_courses ?r)"
    unfolding list_ex_iff by blast
  show ?thesis
  proof (cases "list_ex is_in_progress_in_future (applied_courses ?r)")
    case True
    with assms(1,2,3) ip flags show ?thesis
      by (simp add: evaluate_with_courses_def Let_def)
  next
    case False
    with assms(1,2,3) ip flags show ?thesis
      by (simp add: evaluate_with_courses_def Let_def)
  qed
qed

theorem in_progress_dependent_is_pending_witness:
  "\<not> treat_in_progress_as_pass (count_assertion GreaterThanOrEqualTo 1)
   \<and> numeric_apply_operator
       (applied_value (count_courses (count_assertion GreaterThanOrEqualTo 1)
          [enrolled_course]))
       GreaterThanOrEqualTo 1
   \<and> \<not> numeric_apply_operator
         (applied_value (count_courses (count_assertion GreaterThanOrEqualTo 1)
            (filter (\<lambda>c. \<not> is_in_progress c) [enrolled_course])))
         GreaterThanOrEqualTo 1
   \<and> is_in_progress enrolled_course \<and> is_in_progress_this_term enrolled_course
   \<and> evaluate_with_courses counting_helpers (count_assertion GreaterThanOrEqualTo 1)
       [enrolled_course]
     = Inr (PendingCurrent,
            count_courses (count_assertion GreaterThanOrEqualTo 1) [enrolled_course])"
proof -
  let ?a = "count_assertion GreaterThanOrEqualTo 1"
  let ?r = "apply_clause_to_assertion_with_courses counting_helpers ?a [enrolled_course]"
  have flags: "is_in_progress enrolled_course" "is_in_progress_this_term enrolled_course"
    "\<not> is_in_progress_in_future enrolled_course"
    by (simp_all add: enrolled_course_def)
  have h1: "\<not> treat_in_progress_as_pass ?a"
    by (simp add: count_assertion_fields)
  have h2: "apply_operator counting_helpers (applied_value ?r) (operator ?a) (expected ?a)"
    by (simp add: count_assertion_fields counting_helpers_fields count_courses_fields)
  have h3: "\<not> apply_operator counting_helpers
      (applied_value (apply_clause_to_assertion_with_courses counting_helpers ?a
         (filter (\<lambda>c. \<not> is_in_progress c) [enrolled_course])))
      (operator ?a) (expected ?a)"
    by (simp add: count_assertion_fields counting_helpers_fields count_courses_fields flags)
  have h4: "\<exists>c \<in> set (applied_courses ?r). is_in_progress c"
    by (simp add: counting_helpers_fields count_courses_fields flags)
  have h5: "\<forall>c \<in> set (applied_courses ?r). is_in_progress c \<longrightarrow>
      is_in_progress_this_term c \<or> is_in_progress_in_future c \<or> is_incomplete c"
    by (simp add: counting_helpers_fields count_courses_fields flags)
  from in_progress_dependent_is_pending [OF h1 h2 h3 h4 h5]
  obtain status where
    run: "evaluate_with_courses counting_helpers ?a [enrolled_course] = Inr (status, ?r)"
    and pending: "status = PendingCurrent \<or> status = PendingRegistered"
    by blast
  have "evaluate_with_courses counting_helpers ?a [enrolled_course]
        \<noteq> Inr (PendingRegistered, ?r)"
    by (simp add: evaluate_with_courses_def Let_def count_assertion_fields
        counting_helpers_fields count_courses_fields flags)
  with run pending have "status = PendingCurrent" by auto
  with run h1 h2 h3 flags show ?thesis
    by (simp add: count_assertion_fields counting_helpers_fields count_courses_fields)
qed

section \<open>Conditional assertions and waivers\<close>

text \<open>
  C7, as the code has it: for a conditional assertion whose condition has the result
  false and whose \<open>when_false\<close> branch is absent, \<open>audit_and_resolve\<close> returns the
  conditional assertion unchanged; its status is \<open>Empty\<close> and its rank is \<open>(0, 1)\<close>.
\<close>

theorem absent_when_false_returns_self:
  assumes "result (condition self) = Some False"
    and "when_false self = None"
  shows "ConditionalAssertion_audit_and_resolve h ctx self data = Inr self
       \<and> ConditionalAssertion_status self = Empty
       \<and> ConditionalAssertion_rank self = Inr (0, 1)"
  using assms
  by (simp add: ConditionalAssertion_audit_and_resolve_def ConditionalAssertion_status_def
      ConditionalAssertion_rank_def)

theorem absent_when_false_returns_self_witness:
  "result (condition conditional_without_else) = Some False
   \<and> when_false conditional_without_else = None
   \<and> ConditionalAssertion_audit_and_resolve counting_helpers no_exceptions
       conditional_without_else [scenario_course, enrolled_course]
     = Inr conditional_without_else
   \<and> ConditionalAssertion_status conditional_without_else = Empty
   \<and> ConditionalAssertion_rank conditional_without_else = Inr (0, 1)"
proof -
  have c: "result (condition conditional_without_else) = Some False"
    by (simp add: conditional_without_else_def)
  have w: "when_false conditional_without_else = None"
    by (simp add: conditional_without_else_def)
  from absent_when_false_returns_self [OF c w] c w show ?thesis
    by simp
qed

theorem absent_when_false_not_passing_counterexample:
  "result (condition conditional_without_else) = Some False
   \<and> when_false conditional_without_else = None
   \<and> ConditionalAssertion_audit_and_resolve counting_helpers no_exceptions
       conditional_without_else [scenario_course]
     = Inr conditional_without_else
   \<and> ConditionalAssertion_status conditional_without_else \<notin> PassingStatuses
   \<and> ConditionalAssertion_rank conditional_without_else \<noteq> Inr (1, 1)"
  by (simp add: conditional_without_else_def ConditionalAssertion_audit_and_resolve_def
      ConditionalAssertion_status_def ConditionalAssertion_rank_def PassingStatuses_def)

text \<open>
  C8: \<open>waive\<close> does not return. For every assertion the keyword \<open>status\<close> that it passes to
  \<open>attr.evolve\<close> names no attribute of the class, and the call raises \<open>TypeError\<close>.
\<close>

theorem waive_raises_type_error:
  "waive self = Inl TypeError"
  by (simp add: waive_def attr_evolve_def Assertion_fields_def)

section \<open>Audited requirements\<close>

text \<open>
  C9, as the code has it: a requirement with \<open>is_audited\<close> true and a body has the status
  \<open>PendingApproval\<close>, whatever the status of the body; a requirement without a body has
  the status that the inherited method gives, whether it is audited or not.
\<close>

theorem audited_requirement_status:
  "(is_audited self \<and> req_result self = Some body \<longrightarrow>
      BaseRequirementRule_status Base_status result_status self = PendingApproval)
   \<and> (req_result self = None \<longrightarrow>
      BaseRequirementRule_status Base_status result_status self = Base_status self)"
  by (simp add: BaseRequirementRule_status_def)

theorem audited_requirement_status_witness:
  "is_audited audited_with_result
   \<and> req_result audited_with_result = Some NeedsMoreItems
   \<and> BaseRequirementRule_status Base_status_empty id audited_with_result = PendingApproval
   \<and> req_result audited_without_result = None
   \<and> BaseRequirementRule_status Base_status_empty id audited_without_result
     = Base_status_empty audited_without_result"
proof -
  have a: "is_audited audited_with_result \<and> req_result audited_with_result = Some NeedsMoreItems"
    by (simp add: audited_with_result_def)
  have n: "req_result audited_without_result = None"
    by (simp add: audited_without_result_def)
  note with_body =
    audited_requirement_status [where self = audited_with_result and body = NeedsMoreItems
      and Base_status = Base_status_empty and result_status = id,
      THEN conjunct1, rule_format, OF a]
  note without_body =
    audited_requirement_status [where self = audited_without_result
      and body = NeedsMoreItems
      and Base_status = Base_status_empty and result_status = id,
      THEN conjunct2, rule_format, OF n]
  from with_body without_body a n show ?thesis by simp
qed

theorem audited_without_result_counterexample:
  "is_audited audited_without_result
   \<and> BaseRequirementRule_status Base_status_empty id audited_without_result = Empty
   \<and> BaseRequirementRule_status Base_status_empty id audited_without_result
     \<noteq> PendingApproval"
  by (simp add: BaseRequirementRule_status_def audited_without_result_def
      Base_status_empty_def)

section \<open>The recursion of \<^verbatim>\<open>completed_courses\<close>\<close>

text \<open>
  C10: \<open>completed_courses\<close> calls itself on the same context before it yields anything,
  so for every context the computation does not return: it yields no course, and in
  particular it does not return the transcript filtered to the courses that are not in
  progress.
\<close>

theorem completed_courses_never_returns:
  "completed_courses self = None
   \<and> completed_courses self \<noteq> Some (filter (\<lambda>c. \<not> is_in_progress c) (transcript self))"
proof -
  have "completed_courses self = Some cs \<Longrightarrow> False" for cs
    by (rule completed_courses.raw_induct [where P = "\<lambda>_ _. False"])
       (auto split: bind_splits)
  then have "completed_courses self = None"
    by (cases "completed_courses self") auto
  then show ?thesis by simp
qed

theorem completed_courses_never_returns_witness:
  "completed_courses scenario_context = None
   \<and> filter (\<lambda>c. \<not> is_in_progress c) (transcript scenario_context) = [scenario_course]"
  using completed_courses_never_returns [of scenario_context]
  by (simp add: scenario_context_def scenario_course_def)

end
